theory Spec2Isabelle
  imports Complex_Main
begin

section \<open>Data model\<close>

text \<open>
  The payment reconciliation code of the learning-management backend works on three
  MongoDB collections: course purchases, users and courses. A collection is a list of
  documents in natural (insertion) order; a document identifier (\<open>_id\<close>, an
  ObjectId) is the string of its hexadecimal digits. Only the fields the reconciliation
  code reads or writes are kept. Times are milliseconds since the epoch. An amount is a
  JavaScript number; the only arithmetic on it is the division of the provider's integer
  total by 100, taken here as the exact quotient.

  The provider calls may fail, and that is part of the model. The database calls of the
  sweeper, of the administrative paths and of the query are taken to succeed. The
  webhook handler answers a database call that throws with a response of its own, so
  there the failing calls are part of the model too.
\<close>

type_synonym objectId = string

datatype status = Pending | Succeeded | Failed

record purchase =
  purchase_id :: objectId
  courseId :: objectId
  userId :: objectId
  amount :: rat
  status :: status
  paymentId :: string
  createdAt :: int

record user =
  user_id :: objectId
  enrolledCourses :: "objectId list"

record course =
  course_id :: objectId
  enrolledStudents :: "objectId list"

record db =
  purchases :: "purchase list"
  users :: "user list"
  courses :: "course list"

text \<open>
  A checkout session as the provider reports it. \<open>amount_total\<close> is in the minor
  currency unit. The two metadata fields are \<open>None\<close> when the session has no metadata
  object, no such key, or an empty value (all falsy in the source).
\<close>

record session =
  session_id :: string
  payment_status :: string
  amount_total :: int
  metadata_courseId :: "objectId option"
  metadata_userId :: "objectId option"

record event =
  event_type :: string
  data_object :: session

text \<open>
  \<open>stripe.checkout.sessions.retrieve\<close>: for a session identifier the provider either
  returns the session (\<open>Inr\<close>) or the call throws with a message (\<open>Inl\<close>): network
  error, authentication error, unknown or malformed identifier. During one pass of the
  sweeper, or one run of a tool, the provider's answer for an identifier is fixed.
\<close>

type_synonym stripe = "string \<Rightarrow> string + session"

section \<open>Collection primitives\<close>

text \<open>JavaScript \<open>s.startsWith(pre)\<close> and \<open>s.includes(sub)\<close>.\<close>

definition startsWith :: "string \<Rightarrow> string \<Rightarrow> bool" where
  "startsWith s pre = (take (length pre) s = pre)"

primrec includes_str :: "string \<Rightarrow> string \<Rightarrow> bool" where
  "includes_str [] sub = (sub = [])"
| "includes_str (c # s) sub = (startsWith (c # s) sub \<or> includes_str s sub)"

text \<open>\<open>Model.findOne(filter)\<close>: the first document in natural order that matches.\<close>

definition findOne :: "('a \<Rightarrow> bool) \<Rightarrow> 'a list \<Rightarrow> 'a option" where
  "findOne P xs = find P xs"

text \<open>
  An update of one document: the first document that matches is replaced, a collection
  without a match is left as it is (\<open>findByIdAndUpdate\<close> then resolves to null and
  does not throw).
\<close>

primrec updateOne :: "('a \<Rightarrow> bool) \<Rightarrow> ('a \<Rightarrow> 'a) \<Rightarrow> 'a list \<Rightarrow> 'a list" where
  "updateOne P f [] = []"
| "updateOne P f (x # xs) = (if P x then f x # xs else x # updateOne P f xs)"

text \<open>The update operator \<open>$addToSet\<close> on an array field.\<close>

definition addToSet :: "objectId \<Rightarrow> objectId list \<Rightarrow> objectId list" where
  "addToSet x xs = (if x \<in> set xs then xs else xs @ [x])"

definition findPurchaseById :: "objectId \<Rightarrow> db \<Rightarrow> purchase option" where
  "findPurchaseById i d = findOne (\<lambda>p. purchase_id p = i) (purchases d)"

definition findUserById :: "objectId \<Rightarrow> db \<Rightarrow> user option" where
  "findUserById i d = findOne (\<lambda>u. user_id u = i) (users d)"

definition findCourseById :: "objectId \<Rightarrow> db \<Rightarrow> course option" where
  "findCourseById i d = findOne (\<lambda>c. course_id c = i) (courses d)"

text \<open>
  \<open>purchase.save()\<close>: the stored document with the identifier of the in-memory
  document takes the in-memory document's fields.
\<close>

definition save :: "purchase \<Rightarrow> db \<Rightarrow> db" where
  "save p d = d\<lparr>purchases := updateOne (\<lambda>q. purchase_id q = purchase_id p) (\<lambda>_. p) (purchases d)\<rparr>"

text \<open>
  \<open>User.findByIdAndUpdate(u, {$addToSet: {enrolledCourses: c}})\<close> and
  \<open>Course.findByIdAndUpdate(c, {$addToSet: {enrolledStudents: u}})\<close>.
\<close>

definition enrollUser :: "objectId \<Rightarrow> objectId \<Rightarrow> db \<Rightarrow> db" where
  "enrollUser u c d =
     d\<lparr>users := updateOne (\<lambda>x. user_id x = u)
                   (\<lambda>x. x\<lparr>enrolledCourses := addToSet c (enrolledCourses x)\<rparr>) (users d)\<rparr>"

definition enrollStudent :: "objectId \<Rightarrow> objectId \<Rightarrow> db \<Rightarrow> db" where
  "enrollStudent c u d =
     d\<lparr>courses := updateOne (\<lambda>x. course_id x = c)
                     (\<lambda>x. x\<lparr>enrolledStudents := addToSet u (enrolledStudents x)\<rparr>) (courses d)\<rparr>"

section \<open>Provider verification\<close>

text \<open>
  \<open>verifyPaymentWithStripe\<close> returns an object with the field \<open>verified\<close> and, depending
  on the branch, \<open>session\<close> or \<open>error\<close>; an absent field is \<open>None\<close>.
\<close>

record verification =
  verified :: bool
  vsession :: "session option"
  verror :: "string option"

definition verifyPaymentWithStripe :: "stripe \<Rightarrow> string \<Rightarrow> verification" where
  "verifyPaymentWithStripe st pid =
     (if startsWith pid ''cs_'' then
        (case st pid of
           Inr s \<Rightarrow> \<lparr>verified = (payment_status s = ''paid''), vsession = Some s, verror = None\<rparr>
         | Inl msg \<Rightarrow> \<lparr>verified = False, vsession = None, verror = Some msg\<rparr>)
      else \<lparr>verified = False, vsession = None, verror = None\<rparr>)"

section \<open>The succeeded transition\<close>

text \<open>
  \<open>updatePurchaseToSucceeded\<close>: the course reference is populated, the status of the
  in-memory document is set, both enrollment updates run inside their own
  \<open>try\<close>, and the document is saved whatever the enrollment did. When the referenced
  course document does not exist the populated field is null, the access
  \<open>purchase.courseId._id\<close> throws before either update is issued, and the inner
  \<open>catch\<close> swallows it. The function has no check of the current status. It returns
  the saved document.
\<close>

definition updatePurchaseToSucceeded :: "purchase \<Rightarrow> db \<Rightarrow> purchase \<times> db" where
  "updatePurchaseToSucceeded p d =
     (let p1 = p\<lparr>status := Succeeded\<rparr>;
          d1 = (case findCourseById (courseId p) d of
                  None \<Rightarrow> d
                | Some c \<Rightarrow> enrollStudent (course_id c) (userId p) (enrollUser (userId p) (course_id c) d))
      in (p1, save p1 d1))"

text \<open>
  The database calls of the transition, and which of them throw during one request.
\<close>

datatype dbcall = ReadPurchases | PopulateCourse | UpdateUser | UpdateCourse | SavePurchase

type_synonym faults = "dbcall \<Rightarrow> bool"

definition noFault :: faults where
  "noFault call = False"

text \<open>
  \<open>updatePurchaseToSucceeded\<close> once more, with the exceptions of its database calls: the
  result is the saved document or the call that threw, and the database as the function
  leaves it. An exception of \<open>populate\<close> or of \<open>save\<close> reaches the outer
  \<open>catch\<close> and is thrown again; \<open>populate\<close> comes before any write, \<open>save\<close> after the
  enrollment updates. The two enrollment updates are issued together
  (\<open>Promise.all\<close>); one that throws is caught by the inner \<open>catch\<close> and does not stop
  the other.
\<close>

definition updatePurchaseToSucceeded_throwing ::
    "faults \<Rightarrow> purchase \<Rightarrow> db \<Rightarrow> (dbcall + purchase) \<times> db" where
  "updatePurchaseToSucceeded_throwing f p d =
     (if f PopulateCourse then (Inl PopulateCourse, d)
      else
        (let p1 = p\<lparr>status := Succeeded\<rparr>;
             d1 = (case findCourseById (courseId p) d of
                     None \<Rightarrow> d
                   | Some c \<Rightarrow>
                      (let du = (if f UpdateUser then d
                                 else enrollUser (userId p) (course_id c) d)
                       in if f UpdateCourse then du
                          else enrollStudent (course_id c) (userId p) du))
         in if f SavePurchase then (Inl SavePurchase, d1)
            else (Inr p1, save p1 d1)))"

section \<open>The stuck-payment sweeper\<close>

text \<open>
  The body of the loop of \<open>checkForStuckPayments\<close> for one pending purchase that was
  loaded at the start of the pass. \<open>now\<close> is the clock reading of the pass
  (\<open>Date.now()\<close>, in milliseconds). A purchase that is not verified and is older than 30
  minutes is queried once more, directly; an exception of that query is caught and
  logged.
\<close>

definition checkStuckPayment :: "int \<Rightarrow> stripe \<Rightarrow> purchase \<Rightarrow> db \<Rightarrow> db" where
  "checkStuckPayment now st p d =
     (let stripeCheck = verifyPaymentWithStripe st (paymentId p)
      in if verified stripeCheck then snd (updatePurchaseToSucceeded p d)
         else if createdAt p < now - 30 * 60 * 1000 then
           (case st (paymentId p) of
              Inr s \<Rightarrow> if payment_status s = ''paid''
                       then snd (updatePurchaseToSucceeded p d) else d
            | Inl msg \<Rightarrow> d)
         else d)"

text \<open>
  \<open>checkForStuckPayments\<close>: the pending purchases created more than two minutes ago are
  selected once, each is processed in turn, and the number selected is returned.
\<close>

definition checkForStuckPayments :: "int \<Rightarrow> stripe \<Rightarrow> db \<Rightarrow> nat \<times> db" where
  "checkForStuckPayments now st d =
     (let pendingPayments =
            filter (\<lambda>p. status p = Pending \<and> createdAt p < now - 2 * 60 * 1000) (purchases d)
      in (length pendingPayments, fold (checkStuckPayment now st) pendingPayments d))"

text \<open>The provider confirms a session identifier: the query returns a paid session.\<close>

definition providerPaid :: "stripe \<Rightarrow> string \<Rightarrow> bool" where
  "providerPaid st pid = (case st pid of Inr s \<Rightarrow> payment_status s = ''paid'' | Inl msg \<Rightarrow> False)"

section \<open>The webhook endpoint\<close>

text \<open>
  The request carries the raw body and the \<open>stripe-signature\<close> header.
  \<open>stripe.webhooks.constructEvent(body, sig, secret)\<close> belongs to the provider's
  library: it returns the event (\<open>Inr\<close>) or throws with a message (\<open>Inl\<close>) when the
  signature does not verify.
\<close>

record request =
  body :: string
  signature :: "string option"

record response =
  code :: nat
  message :: string

type_synonym constructEvent = "string \<Rightarrow> string option \<Rightarrow> string \<Rightarrow> string + event"

text \<open>The session and the purchase that the handler singles out by constant.\<close>

definition specificSessionId :: string where
  "specificSessionId = ''cs_test_a1yhrwDMB306hCrHfRnFp5C6OYQwe4tRTHMWQUNtEar1Lz4Ac4sSPXKLNr''"

definition specificPurchaseId :: objectId where
  "specificPurchaseId = ''682463c0b70ad39d9ac8c16b''"

text \<open>
  The purchase lookup of the handler, as the in-memory document it ends with.
  \<^item> The regular-expression filter \<open>{$regex: session.id.substring(0, 20)}\<close> is a
    containment test: session identifiers consist of letters, digits and underscores,
    none of which is a regular-expression operator.
  \<^item> The metadata lookup and, nested in its \<open>else\<close>, the most recent pending purchase
    are tried only when the session carries both metadata values. Both assign the
    session identifier to the in-memory document; the partial match does not.
  \<^item> \<open>find({status: "pending"}).sort({createdAt: -1}).limit(5)\<close> is the pending
    purchases by descending creation time; among equal times the later document of
    the collection comes first here (MongoDB leaves that order open).
  \<^item> At the end a session that is, or is contained in, the constant session
    identifier falls back to the constant purchase when that one is pending.
\<close>

definition findPurchaseForSession :: "session \<Rightarrow> db \<Rightarrow> purchase option" where
  "findPurchaseForSession s d =
     (case findOne (\<lambda>p. paymentId p = session_id s) (purchases d) of
        Some p \<Rightarrow> Some p
      | None \<Rightarrow>
         (let found =
            (case findOne (\<lambda>p. includes_str (paymentId p) (take 20 (session_id s))) (purchases d) of
               Some p \<Rightarrow> Some p
             | None \<Rightarrow>
                (case (metadata_courseId s, metadata_userId s) of
                   (Some c, Some u) \<Rightarrow>
                     (case findOne (\<lambda>p. courseId p = c \<and> userId p = u \<and> status p = Pending)
                             (purchases d) of
                        Some p \<Rightarrow> Some (p\<lparr>paymentId := session_id s\<rparr>)
                      | None \<Rightarrow>
                         (case take 5 (rev (sort_key createdAt
                                 (filter (\<lambda>p. status p = Pending) (purchases d)))) of
                            p # rest \<Rightarrow> Some (p\<lparr>paymentId := session_id s\<rparr>)
                          | [] \<Rightarrow> None))
                 | _ \<Rightarrow> None))
          in case found of
               Some p \<Rightarrow> Some p
             | None \<Rightarrow>
                if session_id s = specificSessionId \<or> includes_str specificSessionId (session_id s)
                then (case findPurchaseById specificPurchaseId d of
                        Some sp \<Rightarrow> if status sp = Pending then Some sp else None
                      | None \<Rightarrow> None)
                else None))"

text \<open>
  \<open>stripeWebhook\<close>: the response and the database after the request. A missing (or
  empty) signing secret is answered with 500 before anything else; a signature that
  does not verify with 400; a completed checkout without a purchase with 404. The
  purchase found takes the session's total divided by 100 as its amount and goes through
  \<open>updatePurchaseToSucceeded\<close>, whatever its current status is. A database call of
  the processing that throws ends in the handler's \<open>catch\<close> and is answered with 500:
  the reads of the purchase collection (they fail together, so the first one throws), or
  \<open>populate\<close> or \<open>save\<close> inside \<open>updatePurchaseToSucceeded\<close>. Every other verified
  event reaches the final line and is answered with 200.
\<close>

definition stripeWebhook ::
    "faults \<Rightarrow> constructEvent \<Rightarrow> string option \<Rightarrow> request \<Rightarrow> db \<Rightarrow> response \<times> db" where
  "stripeWebhook f constructEvent secret req d =
     (case secret of
        None \<Rightarrow> (\<lparr>code = 500, message = ''Webhook Secret missing''\<rparr>, d)
      | Some sec \<Rightarrow>
         if sec = [] then (\<lparr>code = 500, message = ''Webhook Secret missing''\<rparr>, d)
         else
          (case constructEvent (body req) (signature req) sec of
             Inl msg \<Rightarrow> (\<lparr>code = 400, message = ''Webhook Error: '' @ msg\<rparr>, d)
           | Inr ev \<Rightarrow>
              if event_type ev = ''checkout.session.completed'' then
                (let s = data_object ev
                 in if f ReadPurchases then
                      (\<lparr>code = 500,
                        message = ''Internal Server Error during webhook processing''\<rparr>, d)
                    else
                      (case findPurchaseForSession s d of
                         None \<Rightarrow> (\<lparr>code = 404, message = ''Purchase not found''\<rparr>, d)
                       | Some p \<Rightarrow>
                          (case updatePurchaseToSucceeded_throwing f
                                  (p\<lparr>amount := of_int (amount_total s) / 100\<rparr>) d of
                             (Inl call, d') \<Rightarrow>
                               (\<lparr>code = 500,
                                 message = ''Internal Server Error during webhook processing''\<rparr>,
                                d')
                           | (Inr saved, d') \<Rightarrow>
                               (\<lparr>code = 200, message = ''received''\<rparr>, d'))))
              else (\<lparr>code = 200, message = ''received''\<rparr>, d)))"

section \<open>Administrative paths\<close>

text \<open>The status as the string the database holds.\<close>

primrec status_name :: "status \<Rightarrow> string" where
  "status_name Pending = ''pending''"
| "status_name Succeeded = ''succeeded''"
| "status_name Failed = ''failed''"

text \<open>
  The route \<open>GET /fix-payment/:purchaseId\<close>. \<open>node_env\<close> is \<open>process.env.NODE_ENV\<close>.
  A pending purchase gets the status succeeded and is saved; the handler touches
  neither the user nor the course.
\<close>

definition fixPaymentRoute :: "string option \<Rightarrow> objectId \<Rightarrow> db \<Rightarrow> response \<times> db" where
  "fixPaymentRoute node_env purchaseId d =
     (if node_env = Some ''production'' then
        (\<lparr>code = 403, message = ''Not available in production''\<rparr>, d)
      else
        (case findPurchaseById purchaseId d of
           None \<Rightarrow> (\<lparr>code = 404, message = ''Purchase not found''\<rparr>, d)
         | Some p \<Rightarrow>
            if status p = Pending then
              (\<lparr>code = 200, message = ''Purchase updated successfully''\<rparr>,
               save (p\<lparr>status := Succeeded\<rparr>) d)
            else (\<lparr>code = 400,
                   message = ''Purchase is already in '' @ status_name (status p) @ '' status''\<rparr>, d)))"

text \<open>
  \<open>fixPayment\<close> of the command-line tool. The provider client is \<open>None\<close> when no secret
  key is configured. \<open>populated\<close> tells whether the in-memory document came with its
  course populated (the bulk mode) or with the bare reference (the single mode): a bare
  reference answers \<open>_id\<close> with itself, so the enrollment updates are issued with
  it; a populated reference to a course that does not exist is null, the access throws
  and the function returns false after the status has been saved.
\<close>

definition fixPayment :: "stripe option \<Rightarrow> bool \<Rightarrow> purchase \<Rightarrow> bool \<Rightarrow> db \<Rightarrow> bool \<times> db" where
  "fixPayment client populated payment force d =
     (if status payment \<noteq> Pending then (False, d)
      else
        (let stripeVerified =
               (case client of
                  None \<Rightarrow> False
                | Some st \<Rightarrow>
                   if paymentId payment \<noteq> [] \<and> startsWith (paymentId payment) ''cs_'' then
                     (case st (paymentId payment) of
                        Inr s \<Rightarrow> payment_status s = ''paid''
                      | Inl msg \<Rightarrow> False)
                   else False)
         in if force \<or> stripeVerified then
              (let d1 = save (payment\<lparr>status := Succeeded\<rparr>) d
               in if populated \<and> findCourseById (courseId payment) d1 = None then (False, d1)
                  else (True, enrollStudent (courseId payment) (userId payment)
                                (enrollUser (userId payment) (courseId payment) d1)))
            else (False, d)))"

text \<open>
  The script \<open>fixStuckPayment.js\<close>: every pending purchase (loaded with its course
  populated) is fixed when the provider confirms it or when it is older than one hour.
  Each of the two enrollment updates has its own \<open>try\<close>; with a course that does not
  exist both throw on \<open>purchase.courseId._id\<close> and are skipped.
\<close>

definition fixStuckPayment :: "int \<Rightarrow> stripe \<Rightarrow> purchase \<Rightarrow> db \<Rightarrow> db" where
  "fixStuckPayment now st p d =
     (let isOld = (now - createdAt p > 60 * 60 * 1000);
          stripeVerified =
            (if paymentId p \<noteq> [] \<and> startsWith (paymentId p) ''cs_'' then
               (case st (paymentId p) of
                  Inr s \<Rightarrow> payment_status s = ''paid''
                | Inl msg \<Rightarrow> False)
             else False)
      in if stripeVerified \<or> isOld then
           (let d1 = save (p\<lparr>status := Succeeded\<rparr>) d
            in case findCourseById (courseId p) d1 of
                 None \<Rightarrow> d1
               | Some c \<Rightarrow> enrollStudent (course_id c) (userId p)
                            (enrollUser (userId p) (course_id c) d1))
         else d)"

definition fixAllStuckPayments :: "int \<Rightarrow> stripe \<Rightarrow> db \<Rightarrow> db" where
  "fixAllStuckPayments now st d =
     fold (fixStuckPayment now st) (filter (\<lambda>p. status p = Pending) (purchases d)) d"

section \<open>Course detail with purchase flag\<close>

datatype detail_response = Detail200 course bool | Detail404

text \<open>
  \<open>getCourseDetailWithPurchaseStatus\<close>: the purchase query filters on user and course
  only.
\<close>

definition getCourseDetailWithPurchaseStatus :: "objectId \<Rightarrow> objectId \<Rightarrow> db \<Rightarrow> detail_response" where
  "getCourseDetailWithPurchaseStatus uid cid d =
     (let c = findCourseById cid d;
          purchased = findOne (\<lambda>p. userId p = uid \<and> courseId p = cid) (purchases d)
      in case c of
           None \<Rightarrow> Detail404
         | Some c' \<Rightarrow> Detail200 c' (purchased \<noteq> None))"

section \<open>Sample data\<close>

text \<open>
  One user, one course and one pending purchase of 500 created with the checkout
  session \<open>cs_test_a1B2c3\<close>, and the completion event of that session with a
  provider total of 480 (48000 in the minor unit).
\<close>

definition samplePurchase :: purchase where
  "samplePurchase =
     \<lparr>purchase_id = ''p1'', courseId = ''c7'', userId = ''u3'', amount = 500,
      status = Pending, paymentId = ''cs_test_a1B2c3'', createdAt = 1000\<rparr>"

definition sampleDb :: db where
  "sampleDb =
     \<lparr>purchases = [samplePurchase],
      users = [\<lparr>user_id = ''u3'', enrolledCourses = []\<rparr>],
      courses = [\<lparr>course_id = ''c7'', enrolledStudents = []\<rparr>]\<rparr>"

definition sampleSession :: session where
  "sampleSession =
     \<lparr>session_id = ''cs_test_a1B2c3'', payment_status = ''paid'', amount_total = 48000,
      metadata_courseId = Some ''c7'', metadata_userId = Some ''u3''\<rparr>"

definition completed :: "session \<Rightarrow> event" where
  "completed s = \<lparr>event_type = ''checkout.session.completed'', data_object = s\<rparr>"

definition sampleRequest :: request where
  "sampleRequest = \<lparr>body = ''{}'', signature = Some ''t=1,v1=ab''\<rparr>"

text \<open>A provider that cannot be reached, and one that reports every session unpaid.\<close>

definition unreachable :: stripe where
  "unreachable pid = Inl ''connect ETIMEDOUT''"

definition unpaid :: stripe where
  "unpaid pid =
     Inr \<lparr>session_id = pid, payment_status = ''unpaid'', amount_total = 0,
          metadata_courseId = None, metadata_userId = None\<rparr>"

text \<open>Signature checks that accept the request as a given event, or reject it.\<close>

definition acceptEvent :: "event \<Rightarrow> constructEvent" where
  "acceptEvent ev b sg sec = Inr ev"

definition rejectSignature :: constructEvent where
  "rejectSignature b sg sec = Inl ''No signatures found matching the expected signature for payload''"

section \<open>Basic facts about the collection primitives\<close>

lemma findOne_None_iff: "findOne P xs = None \<longleftrightarrow> (\<forall>x \<in> set xs. \<not> P x)"
  by (auto simp: findOne_def find_None_iff)

lemma findOne_SomeD: "findOne P xs = Some x \<Longrightarrow> x \<in> set xs \<and> P x"
  unfolding findOne_def by (induction xs) (auto split: if_splits)

lemma find_updateOne_other:
  assumes "\<And>x. P x \<Longrightarrow> \<not> Q x" and "\<And>x. P x \<Longrightarrow> \<not> Q (f x)"
  shows "find Q (updateOne P f xs) = find Q xs"
  using assms by (induction xs) auto

lemma set_updateOne_const: "set (updateOne P (\<lambda>_. y) xs) \<subseteq> insert y (set xs)"
  by (induction xs) auto

lemma purchases_enroll [simp]:
  "purchases (enrollUser u c d) = purchases d"
  "purchases (enrollStudent c u d) = purchases d"
  by (simp_all add: enrollUser_def enrollStudent_def)

lemma purchases_updatePurchaseToSucceeded:
  "purchases (snd (updatePurchaseToSucceeded p d)) =
     updateOne (\<lambda>q. purchase_id q = purchase_id p) (\<lambda>_. p\<lparr>status := Succeeded\<rparr>) (purchases d)"
  by (simp add: updatePurchaseToSucceeded_def save_def Let_def split: option.split)

lemma findPurchaseById_update_other:
  "purchase_id p \<noteq> i \<Longrightarrow>
     findPurchaseById i (snd (updatePurchaseToSucceeded p d)) = findPurchaseById i d"
  unfolding findPurchaseById_def findOne_def purchases_updatePurchaseToSucceeded
  by (rule find_updateOne_other) auto

lemma checkStuckPayment_cases:
  "checkStuckPayment now st p d = d \<or>
     (providerPaid st (paymentId p) \<and>
      checkStuckPayment now st p d = snd (updatePurchaseToSucceeded p d))"
  by (auto simp: checkStuckPayment_def verifyPaymentWithStripe_def providerPaid_def Let_def
      split: sum.splits if_splits)

lemma checkStuckPayment_keeps:
  assumes "purchase_id q = i \<longrightarrow> \<not> providerPaid st (paymentId q)"
  shows "findPurchaseById i (checkStuckPayment now st q d) = findPurchaseById i d"
  using checkStuckPayment_cases [of now st q d] assms
  by (auto simp: findPurchaseById_update_other)

lemma fold_checkStuckPayment_keeps:
  assumes "\<forall>q \<in> set qs. purchase_id q = i \<longrightarrow> \<not> providerPaid st (paymentId q)"
  shows "findPurchaseById i (fold (checkStuckPayment now st) qs d) = findPurchaseById i d"
  using assms
proof (induction qs arbitrary: d)
  case Nil
  then show ?case by simp
next
  case (Cons q qs)
  then show ?case by (simp add: checkStuckPayment_keeps)
qed

lemma find_by_id_distinct:
  assumes "distinct (map purchase_id ps)" and "p \<in> set ps"
  shows "find (\<lambda>q. purchase_id q = purchase_id p) ps = Some p"
  using assms by (induction ps) force+

lemma same_id_distinct:
  assumes "distinct (map purchase_id ps)" and "p \<in> set ps" and "q \<in> set ps"
    and "purchase_id q = purchase_id p"
  shows "q = p"
  using assms by (meson distinct_map inj_on_def)

lemma sweep_keeps_unconfirmed:
  assumes "distinct (map purchase_id (purchases d))" and "p \<in> set (purchases d)"
    and "\<not> providerPaid st (paymentId p)"
  shows "findPurchaseById (purchase_id p) (snd (checkForStuckPayments now st d)) = Some p"
proof -
  let ?qs = "filter (\<lambda>p. status p = Pending \<and> createdAt p < now - 2 * 60 * 1000) (purchases d)"
  have "\<forall>q \<in> set ?qs. purchase_id q = purchase_id p \<longrightarrow> \<not> providerPaid st (paymentId q)"
    using assms same_id_distinct [OF assms(1,2)] by auto
  then have "findPurchaseById (purchase_id p) (fold (checkStuckPayment now st) ?qs d)
      = findPurchaseById (purchase_id p) d"
    by (rule fold_checkStuckPayment_keeps)
  also have "\<dots> = Some p"
    using find_by_id_distinct [OF assms(1,2)] by (simp add: findPurchaseById_def findOne_def)
  finally show ?thesis by (simp add: checkForStuckPayments_def Let_def)
qed

lemma fold_checkStuckPayment_origin:
  assumes "x \<in> set (purchases (fold (checkStuckPayment now st) qs d))"
  shows "x \<in> set (purchases d) \<or>
     (\<exists>q \<in> set qs. x = q\<lparr>status := Succeeded\<rparr> \<and> providerPaid st (paymentId q))"
  using assms
proof (induction qs arbitrary: d)
  case Nil
  then show ?case by simp
next
  case (Cons q qs)
  from Cons.IH [OF Cons.prems [simplified]]
  consider "x \<in> set (purchases (checkStuckPayment now st q d))"
    | "\<exists>r \<in> set qs. x = r\<lparr>status := Succeeded\<rparr> \<and> providerPaid st (paymentId r)"
    by blast
  then show ?case
  proof cases
    case 1
    show ?thesis
      using checkStuckPayment_cases [of now st q d] 1
        set_updateOne_const [of "\<lambda>r. purchase_id r = purchase_id q" "q\<lparr>status := Succeeded\<rparr>" "purchases d"]
      by (auto simp: purchases_updatePurchaseToSucceeded)
  next
    case 2
    then show ?thesis by auto
  qed
qed

lemma find_updateOne_same:
  assumes "\<And>x. P x \<Longrightarrow> P (f x)"
  shows "find P (updateOne P f xs) = map_option f (find P xs)"
  using assms by (induction xs) auto


lemma updateOne_no_match:
  "\<forall>x \<in> set xs. \<not> P x \<Longrightarrow> updateOne P f xs = xs"
  by (induction xs) auto


lemma count_list_addToSet:
  "count_list xs c \<le> 1 \<Longrightarrow> count_list (addToSet c xs) c = 1"
  using count_list_0_iff [of xs c] by (auto simp: addToSet_def)

lemma findCourseById_SomeD: "findCourseById i d = Some c \<Longrightarrow> course_id c = i"
  by (auto simp: findCourseById_def dest: findOne_SomeD)

lemma users_updatePurchaseToSucceeded:
  "users (snd (updatePurchaseToSucceeded p d)) =
     (case findCourseById (courseId p) d of
        None \<Rightarrow> users d
      | Some c \<Rightarrow> updateOne (\<lambda>x. user_id x = userId p)
                   (\<lambda>x. x\<lparr>enrolledCourses := addToSet (courseId p) (enrolledCourses x)\<rparr>) (users d))"
  by (auto simp: updatePurchaseToSucceeded_def save_def Let_def enrollUser_def enrollStudent_def
      split: option.split dest: findCourseById_SomeD)

lemma courses_updatePurchaseToSucceeded:
  "courses (snd (updatePurchaseToSucceeded p d)) =
     updateOne (\<lambda>x. course_id x = courseId p)
       (\<lambda>x. x\<lparr>enrolledStudents := addToSet (userId p) (enrolledStudents x)\<rparr>) (courses d)"
proof (cases "findCourseById (courseId p) d")
  case None
  then have "\<forall>x \<in> set (courses d). course_id x \<noteq> courseId p"
    by (simp add: findCourseById_def findOne_None_iff)
  then have "updateOne (\<lambda>x. course_id x = courseId p)
       (\<lambda>x. x\<lparr>enrolledStudents := addToSet (userId p) (enrolledStudents x)\<rparr>) (courses d) = courses d"
    by (rule updateOne_no_match)
  with None show ?thesis
    by (simp add: updatePurchaseToSucceeded_def save_def Let_def)
next
  case (Some c)
  then show ?thesis
    by (auto simp: updatePurchaseToSucceeded_def save_def Let_def enrollUser_def enrollStudent_def
      dest: findCourseById_SomeD)
qed

lemma find_updateOne_const:
  assumes "P y"
  shows "find P (updateOne P (\<lambda>_. y) xs) = (if \<exists>x \<in> set xs. P x then Some y else None)"
  using assms by (induction xs) auto

lemma findPurchaseById_updatePurchaseToSucceeded:
  assumes "q \<in> set (purchases d)" and "purchase_id q = purchase_id p"
  shows "findPurchaseById (purchase_id p) (snd (updatePurchaseToSucceeded p d))
           = Some (p\<lparr>status := Succeeded\<rparr>)"
proof -
  have "find (\<lambda>x. purchase_id x = purchase_id p)
          (updateOne (\<lambda>x. purchase_id x = purchase_id p) (\<lambda>_. p\<lparr>status := Succeeded\<rparr>) (purchases d))
        = (if \<exists>x \<in> set (purchases d). purchase_id x = purchase_id p
           then Some (p\<lparr>status := Succeeded\<rparr>) else None)"
    by (rule find_updateOne_const) simp
  with assms show ?thesis
    by (auto simp: findPurchaseById_def findOne_def purchases_updatePurchaseToSucceeded)
qed

lemma findUserById_updatePurchaseToSucceeded:
  assumes "findCourseById (courseId p) d = Some c" and "findUserById (userId p) d = Some u"
  shows "findUserById (userId p) (snd (updatePurchaseToSucceeded p d))
           = Some (u\<lparr>enrolledCourses := addToSet (courseId p) (enrolledCourses u)\<rparr>)"
proof -
  have "find (\<lambda>x. user_id x = userId p)
          (updateOne (\<lambda>x. user_id x = userId p)
             (\<lambda>x. x\<lparr>enrolledCourses := addToSet (courseId p) (enrolledCourses x)\<rparr>) (users d))
        = map_option (\<lambda>x. x\<lparr>enrolledCourses := addToSet (courseId p) (enrolledCourses x)\<rparr>)
            (find (\<lambda>x. user_id x = userId p) (users d))"
    by (rule find_updateOne_same) simp
  with assms show ?thesis
    by (simp add: findUserById_def findOne_def users_updatePurchaseToSucceeded)
qed

lemma findCourseById_updatePurchaseToSucceeded:
  assumes "findCourseById (courseId p) d = Some c"
  shows "findCourseById (courseId p) (snd (updatePurchaseToSucceeded p d))
           = Some (c\<lparr>enrolledStudents := addToSet (userId p) (enrolledStudents c)\<rparr>)"
proof -
  have "find (\<lambda>x. course_id x = courseId p)
          (updateOne (\<lambda>x. course_id x = courseId p)
             (\<lambda>x. x\<lparr>enrolledStudents := addToSet (userId p) (enrolledStudents x)\<rparr>) (courses d))
        = map_option (\<lambda>x. x\<lparr>enrolledStudents := addToSet (userId p) (enrolledStudents x)\<rparr>)
            (find (\<lambda>x. course_id x = courseId p) (courses d))"
    by (rule find_updateOne_same) simp
  with assms show ?thesis
    by (simp add: findCourseById_def findOne_def courses_updatePurchaseToSucceeded)
qed


lemma updatePurchaseToSucceeded_fst [simp]:
  "fst (updatePurchaseToSucceeded p d) = p\<lparr>status := Succeeded\<rparr>"
  by (simp add: updatePurchaseToSucceeded_def Let_def)



lemma findOne_Some_ex: "(\<exists>x \<in> set xs. P x) \<Longrightarrow> \<exists>y. findOne P xs = Some y"
  using findOne_None_iff [of P xs] by (cases "findOne P xs") auto

lemma sorted_map_last:
  "sorted (map f ys) \<Longrightarrow> q \<in> set ys \<Longrightarrow> f q \<le> f (last ys)"
  by (induction ys) auto

lemma most_recent_first:
  assumes "xs \<noteq> []"
  shows "\<exists>p rest. take 5 (rev (sort_key f xs)) = p # rest \<and> p \<in> set xs
           \<and> (\<forall>q \<in> set xs. f q \<le> f p)"
proof (cases "sort_key f xs" rule: rev_cases)
  case Nil
  then have "length xs = 0"
    by (metis length_sort list.size(3))
  with assms show ?thesis by simp
next
  case (snoc zs z)
  have "z \<in> set (sort_key f xs)"
    using snoc by simp
  then have m: "z \<in> set xs"
    by simp
  have "sorted (map f (sort_key f xs))"
    by (rule sorted_sort_key)
  then have "\<forall>q \<in> set (sort_key f xs). f q \<le> f (last (sort_key f xs))"
    by (auto intro: sorted_map_last)
  then have "\<forall>q \<in> set xs. f q \<le> f (last (sort_key f xs))"
    by simp
  then have "\<forall>q \<in> set xs. f q \<le> f z"
    by (simp add: snoc)
  moreover have "take 5 (rev (sort_key f xs)) = z # take 4 (rev zs)"
    using snoc by (simp add: numeral_eq_Suc)
  ultimately show ?thesis
    using m by blast
qed

lemma updatePurchaseToSucceeded_throwing_noFault:
  "updatePurchaseToSucceeded_throwing noFault p d
     = (Inr (fst (updatePurchaseToSucceeded p d)), snd (updatePurchaseToSucceeded p d))"
  by (simp add: updatePurchaseToSucceeded_throwing_def updatePurchaseToSucceeded_def noFault_def
      Let_def split: option.split)

lemma stripeWebhook_noFault:
  "stripeWebhook noFault constructEvent secret req d =
     (case secret of
        None \<Rightarrow> (\<lparr>code = 500, message = ''Webhook Secret missing''\<rparr>, d)
      | Some sec \<Rightarrow>
         if sec = [] then (\<lparr>code = 500, message = ''Webhook Secret missing''\<rparr>, d)
         else
          (case constructEvent (body req) (signature req) sec of
             Inl msg \<Rightarrow> (\<lparr>code = 400, message = ''Webhook Error: '' @ msg\<rparr>, d)
           | Inr ev \<Rightarrow>
              if event_type ev = ''checkout.session.completed'' then
                (case findPurchaseForSession (data_object ev) d of
                   None \<Rightarrow> (\<lparr>code = 404, message = ''Purchase not found''\<rparr>, d)
                 | Some p \<Rightarrow>
                    (\<lparr>code = 200, message = ''received''\<rparr>,
                     snd (updatePurchaseToSucceeded
                            (p\<lparr>amount := of_int (amount_total (data_object ev)) / 100\<rparr>) d)))
              else (\<lparr>code = 200, message = ''received''\<rparr>, d)))"
  by (simp add: stripeWebhook_def updatePurchaseToSucceeded_throwing_noFault Let_def
      split: option.split sum.split)
    (simp add: noFault_def)

lemma webhook_found:
  assumes "secret = Some sec" and "sec \<noteq> []"
    and "constructEvent (body req) (signature req) sec = Inr ev"
    and "event_type ev = ''checkout.session.completed''"
    and "findPurchaseForSession (data_object ev) d = Some p0"
    and "q \<in> set (purchases d)" and "purchase_id q = purchase_id p0"
  shows "fst (stripeWebhook noFault constructEvent secret req d) = \<lparr>code = 200, message = ''received''\<rparr>
    \<and> findPurchaseById (purchase_id p0) (snd (stripeWebhook noFault constructEvent secret req d))
        = Some (p0\<lparr>amount := of_int (amount_total (data_object ev)) / 100, status := Succeeded\<rparr>)"
proof -
  let ?p' = "p0\<lparr>amount := of_int (amount_total (data_object ev)) / 100\<rparr>"
  have "stripeWebhook noFault constructEvent secret req d
      = (\<lparr>code = 200, message = ''received''\<rparr>, snd (updatePurchaseToSucceeded ?p' d))"
    using assms(1-5) by (simp add: stripeWebhook_noFault Let_def)
  moreover have "findPurchaseById (purchase_id p0) (snd (updatePurchaseToSucceeded ?p' d))
      = Some (?p'\<lparr>status := Succeeded\<rparr>)"
    using findPurchaseById_updatePurchaseToSucceeded [of q d ?p'] assms(6,7) by simp
  ultimately show ?thesis by simp
qed

text \<open>The definitions that evaluate the sample scenarios.\<close>

lemmas eval_defs =
  stripeWebhook_noFault findPurchaseForSession_def findOne_def updatePurchaseToSucceeded_def
  findCourseById_def findUserById_def findPurchaseById_def enrollUser_def enrollStudent_def save_def
  addToSet_def Let_def startsWith_def specificSessionId_def specificPurchaseId_def
  sampleDb_def samplePurchase_def sampleSession_def completed_def sampleRequest_def
  acceptEvent_def rejectSignature_def fixPaymentRoute_def fixPayment_def

section \<open>The forced fix of the command-line tool\<close>

text \<open>
  The forced fix of the command-line tool sets the status and applies both enrollment
  updates, whatever the provider says and also without a provider client.
\<close>

lemma fixPayment_force_applies:
  assumes "status p = Pending"
    and "q \<in> set (purchases d)" and "purchase_id q = purchase_id p"
    and "findUserById (userId p) d = Some u"
    and "findCourseById (courseId p) d = Some c"
  shows "\<exists>d' u' c'. fixPayment client populated p True d = (True, d')
    \<and> findPurchaseById (purchase_id p) d' = Some (p\<lparr>status := Succeeded\<rparr>)
    \<and> findUserById (userId p) d' = Some u' \<and> courseId p \<in> set (enrolledCourses u')
    \<and> findCourseById (courseId p) d' = Some c' \<and> userId p \<in> set (enrolledStudents c')"
proof -
  let ?d1 = "save (p\<lparr>status := Succeeded\<rparr>) d"
  let ?d' = "enrollStudent (courseId p) (userId p) (enrollUser (userId p) (courseId p) ?d1)"
  have c1: "findCourseById (courseId p) ?d1 = Some c"
    using assms(5) by (simp add: findCourseById_def save_def)
  have r: "fixPayment client populated p True d = (True, ?d')"
    using assms(1) c1 by (simp add: fixPayment_def Let_def)
  have "find (\<lambda>x. purchase_id x = purchase_id p)
          (updateOne (\<lambda>x. purchase_id x = purchase_id p) (\<lambda>_. p\<lparr>status := Succeeded\<rparr>) (purchases d))
        = (if \<exists>x \<in> set (purchases d). purchase_id x = purchase_id p
           then Some (p\<lparr>status := Succeeded\<rparr>) else None)"
    by (rule find_updateOne_const) simp
  then have 1: "findPurchaseById (purchase_id p) ?d' = Some (p\<lparr>status := Succeeded\<rparr>)"
    using assms(2,3) by (auto simp: findPurchaseById_def findOne_def save_def)
  have "find (\<lambda>x. user_id x = userId p)
          (updateOne (\<lambda>x. user_id x = userId p)
             (\<lambda>x. x\<lparr>enrolledCourses := addToSet (courseId p) (enrolledCourses x)\<rparr>) (users d))
        = map_option (\<lambda>x. x\<lparr>enrolledCourses := addToSet (courseId p) (enrolledCourses x)\<rparr>)
            (find (\<lambda>x. user_id x = userId p) (users d))"
    by (rule find_updateOne_same) simp
  then have 2: "findUserById (userId p) ?d'
      = Some (u\<lparr>enrolledCourses := addToSet (courseId p) (enrolledCourses u)\<rparr>)"
    using assms(4) by (simp add: findUserById_def findOne_def save_def enrollUser_def enrollStudent_def)
  have "find (\<lambda>x. course_id x = courseId p)
          (updateOne (\<lambda>x. course_id x = courseId p)
             (\<lambda>x. x\<lparr>enrolledStudents := addToSet (userId p) (enrolledStudents x)\<rparr>) (courses d))
        = map_option (\<lambda>x. x\<lparr>enrolledStudents := addToSet (userId p) (enrolledStudents x)\<rparr>)
            (find (\<lambda>x. course_id x = courseId p) (courses d))"
    by (rule find_updateOne_same) simp
  then have 3: "findCourseById (courseId p) ?d'
      = Some (c\<lparr>enrolledStudents := addToSet (userId p) (enrolledStudents c)\<rparr>)"
    using assms(5) by (simp add: findCourseById_def findOne_def save_def enrollUser_def enrollStudent_def)
  show ?thesis
    using r 1 2 3 by (simp add: addToSet_def)
qed

section \<open>Claims\<close>

text \<open>
  C1. A provider query that fails is reported by \<open>verifyPaymentWithStripe\<close> with the
  error message in the field \<open>error\<close> and without a session, so it differs from the
  result of every query that succeeded, paid or not paid: a caller can tell the two
  apart. A sweep over a stored pending purchase whose query fails leaves the stored
  document exactly as it was: it stays pending and nothing records a denial.
\<close>

theorem query_failure_distinct_and_left_pending:
  assumes "startsWith pid ''cs_''" and "st pid = Inl msg"
  shows "verifyPaymentWithStripe st pid = \<lparr>verified = False, vsession = None, verror = Some msg\<rparr>
    \<and> (\<forall>st' s. st' pid = Inr s \<longrightarrow> verifyPaymentWithStripe st' pid \<noteq> verifyPaymentWithStripe st pid)
    \<and> (\<forall>(d::db) p now. distinct (map purchase_id (purchases d)) \<and> p \<in> set (purchases d)
          \<and> status p = Pending \<and> paymentId p = pid
        \<longrightarrow> findPurchaseById (purchase_id p) (snd (checkForStuckPayments now st d)) = Some p)"
proof (intro conjI allI impI)
  show "verifyPaymentWithStripe st pid = \<lparr>verified = False, vsession = None, verror = Some msg\<rparr>"
    using assms by (simp add: verifyPaymentWithStripe_def)
next
  fix st' :: stripe and s
  assume "st' pid = Inr s"
  then show "verifyPaymentWithStripe st' pid \<noteq> verifyPaymentWithStripe st pid"
    using assms by (simp add: verifyPaymentWithStripe_def)
next
  fix d :: db and p :: purchase and now :: int
  assume h: "distinct (map purchase_id (purchases d)) \<and> p \<in> set (purchases d)
          \<and> status p = Pending \<and> paymentId p = pid"
  have "\<not> providerPaid st (paymentId p)"
    using h assms(2) by (simp add: providerPaid_def)
  then show "findPurchaseById (purchase_id p) (snd (checkForStuckPayments now st d)) = Some p"
    using h sweep_keeps_unconfirmed by blast
qed

text \<open>
  The sample purchase with a provider that cannot be reached.
\<close>

theorem query_failure_distinct_and_left_pending_witness:
  "startsWith ''cs_test_a1B2c3'' ''cs_''
   \<and> verifyPaymentWithStripe unreachable ''cs_test_a1B2c3''
       = \<lparr>verified = False, vsession = None, verror = Some ''connect ETIMEDOUT''\<rparr>
   \<and> verifyPaymentWithStripe unpaid ''cs_test_a1B2c3''
       \<noteq> verifyPaymentWithStripe unreachable ''cs_test_a1B2c3''
   \<and> findPurchaseById ''p1'' (snd (checkForStuckPayments 5000000 unreachable sampleDb))
       = Some samplePurchase"
proof -
  have a: "startsWith ''cs_test_a1B2c3'' ''cs_''"
    by (simp add: startsWith_def)
  have b: "unreachable ''cs_test_a1B2c3'' = Inl ''connect ETIMEDOUT''"
    by (simp add: unreachable_def)
  note t = query_failure_distinct_and_left_pending
    [where pid = "''cs_test_a1B2c3''" and st = unreachable and msg = "''connect ETIMEDOUT''", OF a b]
  have c: "distinct (map purchase_id (purchases sampleDb)) \<and> samplePurchase \<in> set (purchases sampleDb)
      \<and> status samplePurchase = Pending \<and> paymentId samplePurchase = ''cs_test_a1B2c3''"
    by (simp add: sampleDb_def samplePurchase_def)
  have d: "unpaid ''cs_test_a1B2c3'' = Inr \<lparr>session_id = ''cs_test_a1B2c3'', payment_status = ''unpaid'', amount_total = 0,
          metadata_courseId = None, metadata_userId = None\<rparr>"
    by (simp add: unpaid_def)
  from t c have "findPurchaseById (purchase_id samplePurchase) (snd (checkForStuckPayments 5000000 unreachable sampleDb))
       = Some samplePurchase" by blast
  moreover have "purchase_id samplePurchase = ''p1''" by (simp add: samplePurchase_def)
  moreover from t d have "verifyPaymentWithStripe unpaid ''cs_test_a1B2c3''
       \<noteq> verifyPaymentWithStripe unreachable ''cs_test_a1B2c3''" by blast
  ultimately show ?thesis using a t by simp
qed




text \<open>
  C3 as stated fails for the script \<open>fixStuckPayment.js\<close>, which the claim names beside
  the sweeper: it stores the pending sample purchase, a day old, as succeeded with a
  provider that cannot be reached, and with one that reports the session unpaid.
\<close>

theorem script_forces_old_purchase:
  "status samplePurchase = Pending
   \<and> createdAt samplePurchase < 86400000 - 2 * 60 * 1000
   \<and> \<not> providerPaid unreachable (paymentId samplePurchase)
   \<and> \<not> providerPaid unpaid (paymentId samplePurchase)
   \<and> fixAllStuckPayments 86400000 unreachable sampleDb
     = \<lparr>purchases = [samplePurchase\<lparr>status := Succeeded\<rparr>],
        users = [\<lparr>user_id = ''u3'', enrolledCourses = [''c7'']\<rparr>],
        courses = [\<lparr>course_id = ''c7'', enrolledStudents = [''u3'']\<rparr>]\<rparr>
   \<and> fixAllStuckPayments 86400000 unpaid sampleDb
     = \<lparr>purchases = [samplePurchase\<lparr>status := Succeeded\<rparr>],
        users = [\<lparr>user_id = ''u3'', enrolledCourses = [''c7'']\<rparr>],
        courses = [\<lparr>course_id = ''c7'', enrolledStudents = [''u3'']\<rparr>]\<rparr>"
  by (simp add: eval_defs fixAllStuckPayments_def fixStuckPayment_def unreachable_def unpaid_def
      providerPaid_def)

text \<open>
  C3, amended. The background sweeper \<open>checkForStuckPayments\<close> never moves a purchase to
  succeeded on age alone. A stored pending purchase older than the two-minute grace
  threshold for which the provider does not return a paid session (it reports another
  payment status, or the query fails) is stored unchanged after the pass, however old
  it is. And every purchase document in the store after the pass is either a document
  of the store before the pass, or a selected purchase with the status set to succeeded
  whose session the provider reported as paid.
\<close>

theorem sweep_never_forces_on_age:
  assumes "distinct (map purchase_id (purchases d))"
    and "p \<in> set (purchases d)"
    and "status p = Pending"
    and "createdAt p < now - 2 * 60 * 1000"
    and "\<not> providerPaid st (paymentId p)"
  shows "findPurchaseById (purchase_id p) (snd (checkForStuckPayments now st d)) = Some p
    \<and> (\<forall>x \<in> set (purchases (snd (checkForStuckPayments now st d))).
          x \<in> set (purchases d) \<or>
          (\<exists>q \<in> set (purchases d). status q = Pending \<and> createdAt q < now - 2 * 60 * 1000
              \<and> providerPaid st (paymentId q) \<and> x = q\<lparr>status := Succeeded\<rparr>))"
proof
  show "findPurchaseById (purchase_id p) (snd (checkForStuckPayments now st d)) = Some p"
    using assms(1,2,5) by (rule sweep_keeps_unconfirmed)
next
  show "\<forall>x \<in> set (purchases (snd (checkForStuckPayments now st d))).
          x \<in> set (purchases d) \<or>
          (\<exists>q \<in> set (purchases d). status q = Pending \<and> createdAt q < now - 2 * 60 * 1000
              \<and> providerPaid st (paymentId q) \<and> x = q\<lparr>status := Succeeded\<rparr>)"
  proof
    fix x
    assume "x \<in> set (purchases (snd (checkForStuckPayments now st d)))"
    then have "x \<in> set (purchases (fold (checkStuckPayment now st)
        (filter (\<lambda>p. status p = Pending \<and> createdAt p < now - 2 * 60 * 1000) (purchases d)) d))"
      by (simp add: checkForStuckPayments_def Let_def)
    from fold_checkStuckPayment_origin [OF this]
    show "x \<in> set (purchases d) \<or>
          (\<exists>q \<in> set (purchases d). status q = Pending \<and> createdAt q < now - 2 * 60 * 1000
              \<and> providerPaid st (paymentId q) \<and> x = q\<lparr>status := Succeeded\<rparr>)"
      by auto
  qed
qed

text \<open>
  The sample purchase, a day old, with a provider that reports it unpaid.
\<close>

theorem sweep_never_forces_on_age_witness:
  "distinct (map purchase_id (purchases sampleDb))
   \<and> samplePurchase \<in> set (purchases sampleDb)
   \<and> status samplePurchase = Pending
   \<and> createdAt samplePurchase < 86400000 - 2 * 60 * 1000
   \<and> \<not> providerPaid unpaid (paymentId samplePurchase)
   \<and> findPurchaseById ''p1'' (snd (checkForStuckPayments 86400000 unpaid sampleDb)) = Some samplePurchase"
proof -
  have h: "distinct (map purchase_id (purchases sampleDb))"
    "samplePurchase \<in> set (purchases sampleDb)"
    "status samplePurchase = Pending"
    "createdAt samplePurchase < 86400000 - 2 * 60 * 1000"
    "\<not> providerPaid unpaid (paymentId samplePurchase)"
    by (simp_all add: sampleDb_def samplePurchase_def providerPaid_def unpaid_def)
  from sweep_never_forces_on_age [OF h]
  have "findPurchaseById (purchase_id samplePurchase) (snd (checkForStuckPayments 86400000 unpaid sampleDb)) = Some samplePurchase"
    by blast
  moreover have "purchase_id samplePurchase = ''p1''" by (simp add: samplePurchase_def)
  ultimately show ?thesis using h by simp
qed

text \<open>
  C4. The claim is that no operation moves a purchase out of failed. The webhook does:
  its lookup by session identifier takes a purchase of any status, and
  \<open>updatePurchaseToSucceeded\<close> sets the status without looking at it. Here the stored
  purchase of the completed session is failed, and after the request it is succeeded.
\<close>

theorem webhook_moves_failed_to_succeeded:
  "stripeWebhook noFault (acceptEvent (completed sampleSession)) (Some ''whsec_1'') sampleRequest
     (sampleDb\<lparr>purchases := [samplePurchase\<lparr>status := Failed\<rparr>]\<rparr>)
   = (\<lparr>code = 200, message = ''received''\<rparr>,
      \<lparr>purchases = [samplePurchase\<lparr>amount := 480, status := Succeeded\<rparr>],
       users = [\<lparr>user_id = ''u3'', enrolledCourses = [''c7'']\<rparr>],
       courses = [\<lparr>course_id = ''c7'', enrolledStudents = [''u3'']\<rparr>]\<rparr>)"
  by (simp add: eval_defs)

text \<open>
  C5 as stated fails twice. A completion event without metadata, whose session matches
  no stored identifier, is answered with 404 although a pending purchase exists: the
  most recent pending purchase is tried only inside the metadata branch. And a purchase
  found by the partial match keeps its stored session identifier.
\<close>

theorem lookup_fallbacks_deviate:
  "stripeWebhook noFault
       (acceptEvent (completed (sampleSession\<lparr>session_id := ''cs_test_zz9'',
            metadata_courseId := None, metadata_userId := None\<rparr>)))
       (Some ''whsec_1'') sampleRequest sampleDb
     = (\<lparr>code = 404, message = ''Purchase not found''\<rparr>, sampleDb)
   \<and> status samplePurchase = Pending \<and> purchases sampleDb = [samplePurchase]
   \<and> stripeWebhook noFault
       (acceptEvent (completed (sampleSession\<lparr>session_id := ''cs_test_a1B2c3d4e5f6g7h8i9''\<rparr>)))
       (Some ''whsec_1'') sampleRequest
       (sampleDb\<lparr>purchases := [samplePurchase\<lparr>paymentId := ''cs_test_a1B2c3d4e5f6g7_old''\<rparr>]\<rparr>)
     = (\<lparr>code = 200, message = ''received''\<rparr>,
        \<lparr>purchases = [samplePurchase\<lparr>paymentId := ''cs_test_a1B2c3d4e5f6g7_old'',
                         amount := 480, status := Succeeded\<rparr>],
         users = [\<lparr>user_id = ''u3'', enrolledCourses = [''c7'']\<rparr>],
         courses = [\<lparr>course_id = ''c7'', enrolledStudents = [''u3'']\<rparr>]\<rparr>)"
  by (simp add: eval_defs)

text \<open>
  C5, amended. For a verified completion event the lookup takes, in this order: a
  purchase whose stored session identifier equals the event's; else one whose stored
  identifier contains the first 20 characters of the event's; else, when the event
  carries the course and the user as metadata, a pending purchase of that course and
  user; else, still only with metadata, a pending purchase with the latest creation
  time. The purchase taken is stored as succeeded with the event's amount; when it was
  taken by metadata or as the most recent one, its stored session identifier is the
  event's.
\<close>

theorem webhook_lookup_order_and_id_correction:
  fixes d :: db and ev :: event
  defines "sid \<equiv> session_id (data_object ev)"
    and "newAmount \<equiv> of_int (amount_total (data_object ev)) / 100"
    and "exactMatch \<equiv> \<lambda>p. paymentId p = session_id (data_object ev)"
    and "partialMatch \<equiv> \<lambda>p. includes_str (paymentId p) (take 20 (session_id (data_object ev)))"
  assumes "secret = Some sec" and "sec \<noteq> []"
    and "constructEvent (body req) (signature req) sec = Inr ev"
    and "event_type ev = ''checkout.session.completed''"
    and "d' = snd (stripeWebhook noFault constructEvent secret req d)"
  shows "((\<exists>p \<in> set (purchases d). exactMatch p) \<longrightarrow>
            (\<exists>p \<in> set (purchases d). exactMatch p
               \<and> findPurchaseById (purchase_id p) d' = Some (p\<lparr>amount := newAmount, status := Succeeded\<rparr>)))
    \<and> ((\<forall>p \<in> set (purchases d). \<not> exactMatch p) \<and> (\<exists>p \<in> set (purchases d). partialMatch p) \<longrightarrow>
            (\<exists>p \<in> set (purchases d). partialMatch p
               \<and> (\<exists>p'. findPurchaseById (purchase_id p) d' = Some p'
                     \<and> amount p' = newAmount \<and> status p' = Succeeded)))
    \<and> ((\<forall>p \<in> set (purchases d). \<not> exactMatch p \<and> \<not> partialMatch p)
          \<and> metadata_courseId (data_object ev) = Some c \<and> metadata_userId (data_object ev) = Some u
          \<and> (\<exists>p \<in> set (purchases d). courseId p = c \<and> userId p = u \<and> status p = Pending) \<longrightarrow>
            (\<exists>p \<in> set (purchases d). courseId p = c \<and> userId p = u \<and> status p = Pending
               \<and> findPurchaseById (purchase_id p) d'
                   = Some (p\<lparr>paymentId := sid, amount := newAmount, status := Succeeded\<rparr>)))
    \<and> ((\<forall>p \<in> set (purchases d). \<not> exactMatch p \<and> \<not> partialMatch p)
          \<and> metadata_courseId (data_object ev) = Some c \<and> metadata_userId (data_object ev) = Some u
          \<and> (\<forall>p \<in> set (purchases d). \<not> (courseId p = c \<and> userId p = u \<and> status p = Pending))
          \<and> (\<exists>p \<in> set (purchases d). status p = Pending) \<longrightarrow>
            (\<exists>p \<in> set (purchases d). status p = Pending
               \<and> (\<forall>q \<in> set (purchases d). status q = Pending \<longrightarrow> createdAt q \<le> createdAt p)
               \<and> findPurchaseById (purchase_id p) d'
                   = Some (p\<lparr>paymentId := sid, amount := newAmount, status := Succeeded\<rparr>)))"
proof (intro conjI impI)
  let ?s = "data_object ev"
  have found: "findPurchaseById (purchase_id p0) d'
      = Some (p0\<lparr>amount := newAmount, status := Succeeded\<rparr>)"
    if "findPurchaseForSession ?s d = Some p0" and "q \<in> set (purchases d)"
      and "purchase_id q = purchase_id p0" for p0 q
    using webhook_found [where constructEvent = constructEvent and req = req and d = d,
        OF assms(5-8) that]
    by (simp add: assms(9) newAmount_def)
  {
    assume "\<exists>p \<in> set (purchases d). exactMatch p"
    then obtain p where p: "findOne exactMatch (purchases d) = Some p"
      using findOne_Some_ex [of "purchases d" exactMatch] by blast
    then have l: "findPurchaseForSession ?s d = Some p"
      by (simp add: findPurchaseForSession_def exactMatch_def)
    have pin: "p \<in> set (purchases d)" "exactMatch p"
      using findOne_SomeD [OF p] by simp_all
    have "findPurchaseById (purchase_id p) d' = Some (p\<lparr>amount := newAmount, status := Succeeded\<rparr>)"
      using found [OF l pin(1)] by simp
    with pin show "\<exists>p \<in> set (purchases d). exactMatch p
               \<and> findPurchaseById (purchase_id p) d' = Some (p\<lparr>amount := newAmount, status := Succeeded\<rparr>)"
      by blast
  }
  {
    assume h: "(\<forall>p \<in> set (purchases d). \<not> exactMatch p) \<and> (\<exists>p \<in> set (purchases d). partialMatch p)"
    then have e: "findOne exactMatch (purchases d) = None"
      by (simp add: findOne_None_iff)
    from h obtain p where p: "findOne partialMatch (purchases d) = Some p"
      using findOne_Some_ex [of "purchases d" partialMatch] by blast
    with e have l: "findPurchaseForSession ?s d = Some p"
      by (simp add: findPurchaseForSession_def exactMatch_def partialMatch_def)
    have pin: "p \<in> set (purchases d)" "partialMatch p"
      using findOne_SomeD [OF p] by simp_all
    have "findPurchaseById (purchase_id p) d' = Some (p\<lparr>amount := newAmount, status := Succeeded\<rparr>)"
      using found [OF l pin(1)] by simp
    then have "\<exists>p'. findPurchaseById (purchase_id p) d' = Some p'
                     \<and> amount p' = newAmount \<and> status p' = Succeeded"
      by simp
    with pin show "\<exists>p \<in> set (purchases d). partialMatch p
               \<and> (\<exists>p'. findPurchaseById (purchase_id p) d' = Some p'
                     \<and> amount p' = newAmount \<and> status p' = Succeeded)"
      by blast
  }
  {
    assume h: "(\<forall>p \<in> set (purchases d). \<not> exactMatch p \<and> \<not> partialMatch p)
          \<and> metadata_courseId (data_object ev) = Some c \<and> metadata_userId (data_object ev) = Some u
          \<and> (\<exists>p \<in> set (purchases d). courseId p = c \<and> userId p = u \<and> status p = Pending)"
    then have e: "findOne exactMatch (purchases d) = None" "findOne partialMatch (purchases d) = None"
      by (simp_all add: findOne_None_iff)
    from h obtain p where p: "findOne (\<lambda>p. courseId p = c \<and> userId p = u \<and> status p = Pending) (purchases d) = Some p"
      using findOne_Some_ex [of "purchases d" "\<lambda>p. courseId p = c \<and> userId p = u \<and> status p = Pending"] by blast
    with e h have l: "findPurchaseForSession ?s d = Some (p\<lparr>paymentId := sid\<rparr>)"
      by (simp add: findPurchaseForSession_def exactMatch_def partialMatch_def sid_def)
    have pin: "p \<in> set (purchases d)" "courseId p = c \<and> userId p = u \<and> status p = Pending"
      using findOne_SomeD [OF p] by simp_all
    have "findPurchaseById (purchase_id p) d'
        = Some (p\<lparr>paymentId := sid, amount := newAmount, status := Succeeded\<rparr>)"
      using found [OF l pin(1)] by simp
    with pin show "\<exists>p \<in> set (purchases d). courseId p = c \<and> userId p = u \<and> status p = Pending
               \<and> findPurchaseById (purchase_id p) d'
                   = Some (p\<lparr>paymentId := sid, amount := newAmount, status := Succeeded\<rparr>)"
      by blast
  }
  {
    assume h: "(\<forall>p \<in> set (purchases d). \<not> exactMatch p \<and> \<not> partialMatch p)
          \<and> metadata_courseId (data_object ev) = Some c \<and> metadata_userId (data_object ev) = Some u
          \<and> (\<forall>p \<in> set (purchases d). \<not> (courseId p = c \<and> userId p = u \<and> status p = Pending))
          \<and> (\<exists>p \<in> set (purchases d). status p = Pending)"
    let ?pend = "filter (\<lambda>p. status p = Pending) (purchases d)"
    from h have e: "findOne exactMatch (purchases d) = None" "findOne partialMatch (purchases d) = None"
      "findOne (\<lambda>p. courseId p = c \<and> userId p = u \<and> status p = Pending) (purchases d) = None"
      by (simp_all add: findOne_None_iff)
    from h have "?pend \<noteq> []"
      by (auto simp: filter_empty_conv)
    from most_recent_first [OF this, of createdAt]
    obtain p rest where p: "take 5 (rev (sort_key createdAt ?pend)) = p # rest" "p \<in> set ?pend"
      "\<forall>q \<in> set ?pend. createdAt q \<le> createdAt p"
      by blast
    with e h have l: "findPurchaseForSession ?s d = Some (p\<lparr>paymentId := sid\<rparr>)"
      by (simp add: findPurchaseForSession_def exactMatch_def partialMatch_def sid_def)
    have pin: "p \<in> set (purchases d)" "status p = Pending"
        "\<forall>q \<in> set (purchases d). status q = Pending \<longrightarrow> createdAt q \<le> createdAt p"
      using p(2,3) by simp_all
    have "findPurchaseById (purchase_id p) d'
        = Some (p\<lparr>paymentId := sid, amount := newAmount, status := Succeeded\<rparr>)"
      using found [OF l pin(1)] by simp
    with pin show "\<exists>p \<in> set (purchases d). status p = Pending
               \<and> (\<forall>q \<in> set (purchases d). status q = Pending \<longrightarrow> createdAt q \<le> createdAt p)
               \<and> findPurchaseById (purchase_id p) d'
                   = Some (p\<lparr>paymentId := sid, amount := newAmount, status := Succeeded\<rparr>)"
      by blast
  }
qed

text \<open>
  The four strategies on the sample data: the exact match, a partial match, the match
  by metadata, and the most recent pending purchase (metadata of another course).
\<close>

theorem webhook_lookup_order_and_id_correction_witness:
  "findPurchaseById ''p1'' (snd (stripeWebhook noFault (acceptEvent (completed sampleSession))
        (Some ''whsec_1'') sampleRequest sampleDb))
     = Some (samplePurchase\<lparr>amount := 480, status := Succeeded\<rparr>)
   \<and> (\<exists>p'. findPurchaseById ''p1'' (snd (stripeWebhook noFault
          (acceptEvent (completed (sampleSession\<lparr>session_id := ''cs_test_a1B2c3d4e5f6g7h8i9''\<rparr>)))
          (Some ''whsec_1'') sampleRequest
          (sampleDb\<lparr>purchases := [samplePurchase\<lparr>paymentId := ''cs_test_a1B2c3d4e5f6g7_old''\<rparr>]\<rparr>)))
        = Some p' \<and> amount p' = 480 \<and> status p' = Succeeded)
   \<and> findPurchaseById ''p1'' (snd (stripeWebhook noFault
          (acceptEvent (completed (sampleSession\<lparr>session_id := ''cs_test_zz9''\<rparr>)))
          (Some ''whsec_1'') sampleRequest sampleDb))
     = Some (samplePurchase\<lparr>paymentId := ''cs_test_zz9'', amount := 480, status := Succeeded\<rparr>)
   \<and> findPurchaseById ''p1'' (snd (stripeWebhook noFault
          (acceptEvent (completed (sampleSession\<lparr>session_id := ''cs_test_zz9'',
              metadata_courseId := Some ''c8''\<rparr>)))
          (Some ''whsec_1'') sampleRequest sampleDb))
     = Some (samplePurchase\<lparr>paymentId := ''cs_test_zz9'', amount := 480, status := Succeeded\<rparr>)"
proof -
  note defs = sampleDb_def samplePurchase_def sampleSession_def completed_def sampleRequest_def
    acceptEvent_def startsWith_def
  have s: "Some ''whsec_1'' = Some ''whsec_1''" "''whsec_1'' \<noteq> []"
    by simp_all
  have a: "acceptEvent (completed x) (body sampleRequest) (signature sampleRequest) ''whsec_1''
      = Inr (completed x)" "event_type (completed x) = ''checkout.session.completed''" for x
    by (simp_all add: acceptEvent_def completed_def)
  have 1: "findPurchaseById ''p1'' (snd (stripeWebhook noFault (acceptEvent (completed sampleSession))
        (Some ''whsec_1'') sampleRequest sampleDb))
     = Some (samplePurchase\<lparr>amount := 480, status := Succeeded\<rparr>)"
    using webhook_lookup_order_and_id_correction
      [where secret = "Some ''whsec_1''" and sec = "''whsec_1''" and req = sampleRequest
         and constructEvent = "acceptEvent (completed (sampleSession))"
         and ev = "completed (sampleSession)"
         and d = "sampleDb",
       OF s a refl]
    by (simp add: defs)
  have 2: "\<exists>p'. findPurchaseById ''p1'' (snd (stripeWebhook noFault
          (acceptEvent (completed (sampleSession\<lparr>session_id := ''cs_test_a1B2c3d4e5f6g7h8i9''\<rparr>)))
          (Some ''whsec_1'') sampleRequest
          (sampleDb\<lparr>purchases := [samplePurchase\<lparr>paymentId := ''cs_test_a1B2c3d4e5f6g7_old''\<rparr>]\<rparr>)))
        = Some p' \<and> amount p' = 480 \<and> status p' = Succeeded"
    using webhook_lookup_order_and_id_correction
      [where secret = "Some ''whsec_1''" and sec = "''whsec_1''" and req = sampleRequest
         and constructEvent = "acceptEvent (completed (sampleSession\<lparr>session_id := ''cs_test_a1B2c3d4e5f6g7h8i9''\<rparr>))"
         and ev = "completed (sampleSession\<lparr>session_id := ''cs_test_a1B2c3d4e5f6g7h8i9''\<rparr>)"
         and d = "sampleDb\<lparr>purchases := [samplePurchase\<lparr>paymentId := ''cs_test_a1B2c3d4e5f6g7_old''\<rparr>]\<rparr>",
       OF s a refl]
    by (simp add: defs)
  have 3: "findPurchaseById ''p1'' (snd (stripeWebhook noFault
          (acceptEvent (completed (sampleSession\<lparr>session_id := ''cs_test_zz9''\<rparr>)))
          (Some ''whsec_1'') sampleRequest sampleDb))
     = Some (samplePurchase\<lparr>paymentId := ''cs_test_zz9'', amount := 480, status := Succeeded\<rparr>)"
    using webhook_lookup_order_and_id_correction
      [where secret = "Some ''whsec_1''" and sec = "''whsec_1''" and req = sampleRequest
         and constructEvent = "acceptEvent (completed (sampleSession\<lparr>session_id := ''cs_test_zz9''\<rparr>))"
         and ev = "completed (sampleSession\<lparr>session_id := ''cs_test_zz9''\<rparr>)"
         and d = "sampleDb"
         and c = "''c7''" and u = "''u3''",
       OF s a refl]
    by (simp add: defs)
  have 4: "findPurchaseById ''p1'' (snd (stripeWebhook noFault
          (acceptEvent (completed (sampleSession\<lparr>session_id := ''cs_test_zz9'',
              metadata_courseId := Some ''c8''\<rparr>)))
          (Some ''whsec_1'') sampleRequest sampleDb))
     = Some (samplePurchase\<lparr>paymentId := ''cs_test_zz9'', amount := 480, status := Succeeded\<rparr>)"
    using webhook_lookup_order_and_id_correction
      [where secret = "Some ''whsec_1''" and sec = "''whsec_1''" and req = sampleRequest
         and constructEvent = "acceptEvent (completed (sampleSession\<lparr>session_id := ''cs_test_zz9'', metadata_courseId := Some ''c8''\<rparr>))"
         and ev = "completed (sampleSession\<lparr>session_id := ''cs_test_zz9'', metadata_courseId := Some ''c8''\<rparr>)"
         and d = "sampleDb"
         and c = "''c8''" and u = "''u3''",
       OF s a refl]
    by (simp add: defs)
  from 1 2 3 4 show ?thesis by blast
qed

text \<open>
  C6. The claim, and the comment on the handler's last line, is that every verified
  event is answered with 200. A verified completion event for which no purchase is
  found is answered with 404. One during which the reads of the purchase collection
  throw is answered with 500, and so is one whose \<open>save\<close> throws, after both enrollment
  updates have been applied and with the purchase still pending.
\<close>

theorem verified_event_answered_with_404_or_500:
  "stripeWebhook noFault (acceptEvent (completed sampleSession)) (Some ''whsec_1'') sampleRequest
       (sampleDb\<lparr>purchases := []\<rparr>)
     = (\<lparr>code = 404, message = ''Purchase not found''\<rparr>, sampleDb\<lparr>purchases := []\<rparr>)
   \<and> stripeWebhook (\<lambda>call. call = ReadPurchases) (acceptEvent (completed sampleSession))
       (Some ''whsec_1'') sampleRequest sampleDb
     = (\<lparr>code = 500, message = ''Internal Server Error during webhook processing''\<rparr>, sampleDb)
   \<and> stripeWebhook (\<lambda>call. call = SavePurchase) (acceptEvent (completed sampleSession))
       (Some ''whsec_1'') sampleRequest sampleDb
     = (\<lparr>code = 500, message = ''Internal Server Error during webhook processing''\<rparr>,
        \<lparr>purchases = [samplePurchase],
         users = [\<lparr>user_id = ''u3'', enrolledCourses = [''c7'']\<rparr>],
         courses = [\<lparr>course_id = ''c7'', enrolledStudents = [''u3'']\<rparr>]\<rparr>)"
  by (simp add: eval_defs stripeWebhook_def updatePurchaseToSucceeded_throwing_def noFault_def)

text \<open>
  C7. The claim is that a completed pass never leaves a purchase succeeded without both
  enrollment memberships. The route \<open>/fix-payment/:purchaseId\<close> does: it stores the
  pending sample purchase as succeeded, and the user's enrolled courses and the course's
  enrolled students are still empty.
\<close>

theorem route_fix_succeeds_without_enrollment:
  "fixPaymentRoute (Some ''development'') ''p1'' sampleDb
     = (\<lparr>code = 200, message = ''Purchase updated successfully''\<rparr>,
        \<lparr>purchases = [samplePurchase\<lparr>status := Succeeded\<rparr>],
         users = [\<lparr>user_id = ''u3'', enrolledCourses = []\<rparr>],
         courses = [\<lparr>course_id = ''c7'', enrolledStudents = []\<rparr>]\<rparr>)"
  by (simp add: eval_defs)

text \<open>
  C8. A purchase created with amount 500 is reconciled by the completion event of its
  session, in which the provider's total is 480 (48000 in the minor unit): the endpoint
  answers 200, the stored purchase has amount 480 and status succeeded, the user's
  enrolled courses contain the course exactly once and the course's enrolled students
  contain the user exactly once. (The user and the course exist, and neither list
  held the other more than once before. The division by 100 is exact here; the source
  computes it in double precision.)
\<close>

theorem completion_corrects_amount_and_enrolls_once:
  assumes "secret = Some sec" and "sec \<noteq> []"
    and "constructEvent (body req) (signature req) sec = Inr ev"
    and "event_type ev = ''checkout.session.completed''"
    and "amount_total (data_object ev) = 48000"
    and "findOne (\<lambda>q. paymentId q = session_id (data_object ev)) (purchases d) = Some p"
    and "amount p = 500"
    and "findUserById (userId p) d = Some u"
    and "count_list (enrolledCourses u) (courseId p) \<le> 1"
    and "findCourseById (courseId p) d = Some c"
    and "count_list (enrolledStudents c) (userId p) \<le> 1"
  shows "\<exists>d' u' c'. stripeWebhook noFault constructEvent secret req d = (\<lparr>code = 200, message = ''received''\<rparr>, d')
    \<and> findPurchaseById (purchase_id p) d' = Some (p\<lparr>amount := 480, status := Succeeded\<rparr>)
    \<and> findUserById (userId p) d' = Some u'
    \<and> count_list (enrolledCourses u') (courseId p) = 1
    \<and> findCourseById (courseId p) d' = Some c'
    \<and> count_list (enrolledStudents c') (userId p) = 1"
proof -
  let ?p' = "p\<lparr>amount := 480\<rparr>"
  let ?d' = "snd (updatePurchaseToSucceeded ?p' d)"
  have lookup: "findPurchaseForSession (data_object ev) d = Some p"
    using assms(6) by (simp add: findPurchaseForSession_def)
  have resp: "stripeWebhook noFault constructEvent secret req d = (\<lparr>code = 200, message = ''received''\<rparr>, ?d')"
    using assms(1-5) lookup by (simp add: stripeWebhook_noFault Let_def)
  have pin: "p \<in> set (purchases d)"
    using assms(6) by (auto dest: findOne_SomeD)
  have 1: "findPurchaseById (purchase_id p) ?d' = Some (p\<lparr>amount := 480, status := Succeeded\<rparr>)"
    using findPurchaseById_updatePurchaseToSucceeded [of p d ?p'] pin by simp
  have 2: "findUserById (userId p) ?d'
      = Some (u\<lparr>enrolledCourses := addToSet (courseId p) (enrolledCourses u)\<rparr>)"
    using findUserById_updatePurchaseToSucceeded [of ?p' d c u] assms(8,10) by simp
  have 3: "findCourseById (courseId p) ?d'
      = Some (c\<lparr>enrolledStudents := addToSet (userId p) (enrolledStudents c)\<rparr>)"
    using findCourseById_updatePurchaseToSucceeded [of ?p' d c] assms(10) by simp
  show ?thesis
    using resp 1 2 3 count_list_addToSet [OF assms(9)] count_list_addToSet [OF assms(11)]
    by simp
qed

theorem completion_corrects_amount_and_enrolls_once_witness:
  "stripeWebhook noFault (acceptEvent (completed sampleSession)) (Some ''whsec_1'') sampleRequest sampleDb
     = (\<lparr>code = 200, message = ''received''\<rparr>,
        \<lparr>purchases = [samplePurchase\<lparr>amount := 480, status := Succeeded\<rparr>],
         users = [\<lparr>user_id = ''u3'', enrolledCourses = [''c7'']\<rparr>],
         courses = [\<lparr>course_id = ''c7'', enrolledStudents = [''u3'']\<rparr>]\<rparr>)
   \<and> amount samplePurchase = 500
   \<and> (\<exists>d' u' c'.
        stripeWebhook noFault (acceptEvent (completed sampleSession)) (Some ''whsec_1'') sampleRequest sampleDb
          = (\<lparr>code = 200, message = ''received''\<rparr>, d')
      \<and> findPurchaseById ''p1'' d' = Some (samplePurchase\<lparr>amount := 480, status := Succeeded\<rparr>)
      \<and> findUserById ''u3'' d' = Some u' \<and> count_list (enrolledCourses u') ''c7'' = 1
      \<and> findCourseById ''c7'' d' = Some c' \<and> count_list (enrolledStudents c') ''u3'' = 1)"
proof -
  have ev: "stripeWebhook noFault (acceptEvent (completed sampleSession)) (Some ''whsec_1'') sampleRequest sampleDb
     = (\<lparr>code = 200, message = ''received''\<rparr>,
        \<lparr>purchases = [samplePurchase\<lparr>amount := 480, status := Succeeded\<rparr>],
         users = [\<lparr>user_id = ''u3'', enrolledCourses = [''c7'']\<rparr>],
         courses = [\<lparr>course_id = ''c7'', enrolledStudents = [''u3'']\<rparr>]\<rparr>)"
    by (simp add: eval_defs)
  have t: "\<exists>d' u' c'.
        stripeWebhook noFault (acceptEvent (completed sampleSession)) (Some ''whsec_1'') sampleRequest sampleDb
          = (\<lparr>code = 200, message = ''received''\<rparr>, d')
      \<and> findPurchaseById (purchase_id samplePurchase) d' = Some (samplePurchase\<lparr>amount := 480, status := Succeeded\<rparr>)
      \<and> findUserById (userId samplePurchase) d' = Some u' \<and> count_list (enrolledCourses u') (courseId samplePurchase) = 1
      \<and> findCourseById (courseId samplePurchase) d' = Some c' \<and> count_list (enrolledStudents c') (userId samplePurchase) = 1"
    by (rule completion_corrects_amount_and_enrolls_once
          [where sec = "''whsec_1''" and ev = "completed sampleSession"
             and u = "\<lparr>user_id = ''u3'', enrolledCourses = []\<rparr>"
             and c = "\<lparr>course_id = ''c7'', enrolledStudents = []\<rparr>"])
       (simp_all add: eval_defs)
  have ids: "purchase_id samplePurchase = ''p1''" "userId samplePurchase = ''u3''"
    "courseId samplePurchase = ''c7''" "amount samplePurchase = 500"
    by (simp_all add: samplePurchase_def)
  show ?thesis
    using ev t unfolding ids by blast
qed

text \<open>
  C9. The claim is that every administrative force-fix of a pending purchase sets the
  status and applies the enrollment. On the same pending purchase the forced
  \<open>fixPayment\<close> of the command-line tool does both, and the route
  \<open>/fix-payment/:purchaseId\<close> only sets the status.
\<close>

theorem route_fix_skips_enrollment_that_fixPayment_applies:
  "status samplePurchase = Pending
   \<and> snd (fixPayment None False samplePurchase True sampleDb)
       = \<lparr>purchases = [samplePurchase\<lparr>status := Succeeded\<rparr>],
          users = [\<lparr>user_id = ''u3'', enrolledCourses = [''c7'']\<rparr>],
          courses = [\<lparr>course_id = ''c7'', enrolledStudents = [''u3'']\<rparr>]\<rparr>
   \<and> snd (fixPaymentRoute None ''p1'' sampleDb)
       = \<lparr>purchases = [samplePurchase\<lparr>status := Succeeded\<rparr>],
          users = [\<lparr>user_id = ''u3'', enrolledCourses = []\<rparr>],
          courses = [\<lparr>course_id = ''c7'', enrolledStudents = []\<rparr>]\<rparr>"
  by (simp add: eval_defs)

text \<open>
  C10. The course-detail-with-purchase-flag query reports purchased = true whenever any
  purchase document exists for the user and the course, whatever its status: also when
  the only purchase is pending or failed. (The course itself has to exist, otherwise the
  endpoint answers 404.)
\<close>

theorem detail_purchased_any_status:
  assumes "findCourseById cid d = Some c"
    and "p \<in> set (purchases d)"
    and "userId p = uid" and "courseId p = cid"
  shows "getCourseDetailWithPurchaseStatus uid cid d = Detail200 c True"
proof -
  have "findOne (\<lambda>q. userId q = uid \<and> courseId q = cid) (purchases d) \<noteq> None"
    using assms(2-4) by (auto simp: findOne_None_iff)
  then show ?thesis
    using assms(1) by (simp add: getCourseDetailWithPurchaseStatus_def)
qed

theorem detail_purchased_any_status_witness:
  "getCourseDetailWithPurchaseStatus ''u3'' ''c7''
     \<lparr>purchases = [\<lparr>purchase_id = ''p1'', courseId = ''c7'', userId = ''u3'', amount = 500,
                     status = Failed, paymentId = ''cs_test_1'', createdAt = 0\<rparr>],
      users = [\<lparr>user_id = ''u3'', enrolledCourses = []\<rparr>],
      courses = [\<lparr>course_id = ''c7'', enrolledStudents = []\<rparr>]\<rparr>
   = Detail200 \<lparr>course_id = ''c7'', enrolledStudents = []\<rparr> True"
  using detail_purchased_any_status
    [where uid = "''u3''" and cid = "''c7''"
       and p = "\<lparr>purchase_id = ''p1'', courseId = ''c7'', userId = ''u3'', amount = 500,
                  status = Failed, paymentId = ''cs_test_1'', createdAt = 0\<rparr>"
       and c = "\<lparr>course_id = ''c7'', enrolledStudents = []\<rparr>"
       and d = "\<lparr>purchases = [\<lparr>purchase_id = ''p1'', courseId = ''c7'', userId = ''u3'',
                    amount = 500, status = Failed, paymentId = ''cs_test_1'', createdAt = 0\<rparr>],
                  users = [\<lparr>user_id = ''u3'', enrolledCourses = []\<rparr>],
                  courses = [\<lparr>course_id = ''c7'', enrolledStudents = []\<rparr>]\<rparr>"]
  by (simp add: findCourseById_def findOne_def)

end
